theory Spec2Isabelle
  imports
    Complex_Main
    "HOL-Library.Sublist"
    "HOL-Library.AList"
    "HOL-Library.Char_ord"
    "HOL-Library.List_Lexorder"
    "HOL-Library.Product_Lexorder"
begin

section \<open>Python values and dictionaries\<close>

text \<open>
  The values \<^verbatim>\<open>json.loads\<close> can return, which are also the values a result
  dictionary of \<^verbatim>\<open>metadata.py\<close> holds. A Python \<^verbatim>\<open>dict\<close> keeps its keys in
  insertion order and holds each key once; it is an association list that is only
  ever changed through \<open>dict_set\<close>. Byte strings and text are both \<open>string\<close>.
\<close>

datatype pyval =
    VNone
  | VBool bool
  | VInt int
  | VFloat real
  | VStr string
  | VList "pyval list"
  | VDict "(string \<times> pyval) list"

type_synonym pydict = "(string \<times> pyval) list"

text \<open>Truth value of an object, as \<^verbatim>\<open>not x\<close> and \<^verbatim>\<open>if x\<close> test it.\<close>

fun truthy :: "pyval \<Rightarrow> bool" where
  "truthy VNone = False"
| "truthy (VBool b) = b"
| "truthy (VInt i) = (i \<noteq> 0)"
| "truthy (VFloat x) = (x \<noteq> 0)"
| "truthy (VStr s) = (s \<noteq> [])"
| "truthy (VList xs) = (xs \<noteq> [])"
| "truthy (VDict d) = (d \<noteq> [])"

fun type_name :: "pyval \<Rightarrow> string" where
  "type_name VNone = ''NoneType''"
| "type_name (VBool b) = ''bool''"
| "type_name (VInt i) = ''int''"
| "type_name (VFloat x) = ''float''"
| "type_name (VStr s) = ''str''"
| "type_name (VList xs) = ''list''"
| "type_name (VDict d) = ''dict''"

text \<open>\<^verbatim>\<open>isinstance(v, dict)\<close>.\<close>

fun is_dict :: "pyval \<Rightarrow> bool" where
  "is_dict (VDict d) = True"
| "is_dict v = False"

text \<open>\<^verbatim>\<open>d[k] = v\<close>: overwrite in place, or append a new key.\<close>

definition dict_set :: "('k \<times> 'v) list \<Rightarrow> 'k \<Rightarrow> 'v \<Rightarrow> ('k \<times> 'v) list" where
  "dict_set d k v = AList.update k v d"

text \<open>\<^verbatim>\<open>d.update(other)\<close>, and \<^verbatim>\<open>dict(items)\<close>: the later pair of a key wins.\<close>

definition dict_update :: "('k \<times> 'v) list \<Rightarrow> ('k \<times> 'v) list \<Rightarrow> ('k \<times> 'v) list" where
  "dict_update d other = foldl (\<lambda>acc kv. dict_set acc (fst kv) (snd kv)) d other"

definition dict_of_items :: "('k \<times> 'v) list \<Rightarrow> ('k \<times> 'v) list" where
  "dict_of_items items = dict_update [] items"

text \<open>\<^verbatim>\<open>d.get(k)\<close> with the default \<^verbatim>\<open>None\<close>.\<close>

definition dict_get :: "pydict \<Rightarrow> string \<Rightarrow> pyval" where
  "dict_get d k = (case map_of d k of None \<Rightarrow> VNone | Some v \<Rightarrow> v)"

text \<open>\<^verbatim>\<open>needle in haystack\<close> on strings: a contiguous occurrence.\<close>

fun str_contains :: "string \<Rightarrow> string \<Rightarrow> bool" where
  "str_contains needle [] = (needle = [])"
| "str_contains needle (c # cs) = (prefix needle (c # cs) \<or> str_contains needle cs)"

subsection \<open>Text of a value\<close>

definition digit_char :: "nat \<Rightarrow> char" where
  "digit_char n = ''0123456789'' ! n"

function str_nat :: "nat \<Rightarrow> string" where
  "str_nat n = (if n < 10 then [digit_char n] else str_nat (n div 10) @ [digit_char (n mod 10)])"
  by pat_completeness auto
termination
  by (relation "measure (\<lambda>n. n)") auto

declare str_nat.simps [simp del]

definition str_int :: "int \<Rightarrow> string" where
  "str_int i = (if i < 0 then CHR ''-'' # str_nat (nat (- i)) else str_nat (nat i))"

text \<open>
  \<^verbatim>\<open>str(v)\<close>, as an f-string and the csv writer apply it. The text of a float, a
  list or a dict is the interpreter's \<^verbatim>\<open>repr\<close>; it is the parameter \<open>repr\<close>.
\<close>

fun py_str :: "(pyval \<Rightarrow> string) \<Rightarrow> pyval \<Rightarrow> string" where
  "py_str repr VNone = ''None''"
| "py_str repr (VBool b) = (if b then ''True'' else ''False'')"
| "py_str repr (VInt i) = str_int i"
| "py_str repr (VStr s) = s"
| "py_str repr v = repr v"

section \<open>The outside world\<close>

text \<open>
  An exception is carried with the text \<^verbatim>\<open>str(e)\<close> that the handlers print into the
  error field. \<open>RequestException\<close> stands for \<^verbatim>\<open>requests.exceptions.RequestException\<close>
  and its subclasses, \<open>OtherException\<close> for every other subclass of \<^verbatim>\<open>Exception\<close>.
\<close>

datatype py_exc = RequestException string | OtherException string

record completed_process =
  returncode :: int
  stdout :: string
  stderr :: string

text \<open>
  What the program asks of its libraries and of the network:
  \<^item> \<open>http_get url last_byte timeout\<close>: \<^verbatim>\<open>session.get\<close> with the header
    \<^verbatim>\<open>Range: bytes=0-last_byte\<close>, then \<^verbatim>\<open>raise_for_status\<close> and \<^verbatim>\<open>response.content\<close>;
  \<^item> \<open>subprocess_run command input\<close>: \<^verbatim>\<open>subprocess.run\<close> with captured output;
  \<^item> \<open>bytes_decode\<close>: \<^verbatim>\<open>bytes.decode()\<close>; \<open>json_loads\<close>: \<^verbatim>\<open>json.loads\<close>;
  \<^item> \<open>py_repr\<close>: the text of floats, lists and dicts.
\<close>

record world =
  http_get :: "string \<Rightarrow> nat \<Rightarrow> nat \<Rightarrow> py_exc + string"
  subprocess_run :: "string list \<Rightarrow> string \<Rightarrow> py_exc + completed_process"
  bytes_decode :: "string \<Rightarrow> py_exc + string"
  json_loads :: "string \<Rightarrow> py_exc + pyval"
  py_repr :: "pyval \<Rightarrow> string"

text \<open>The effects a validation task has: network requests and spawned processes.\<close>

datatype event = HttpGet string nat nat | Spawn "string list" string

section \<open>Configuration\<close>

definition PROBE_SIZE_MB :: nat where "PROBE_SIZE_MB = 5"
definition DEEP_SCAN_SIZE_MB :: nat where "DEEP_SCAN_SIZE_MB = 100"

section \<open>flatten_dict\<close>

definition new_key :: "string \<Rightarrow> string \<Rightarrow> string \<Rightarrow> string" where
  "new_key parent_key sep k = (if parent_key \<noteq> [] then parent_key @ sep @ k else k)"

text \<open>
  The loop of \<^verbatim>\<open>flatten_dict\<close> collecting \<^verbatim>\<open>items\<close>. The recursive call returns a
  dict, \<^verbatim>\<open>dict(items)\<close>, whose items are appended.
\<close>

fun flatten_items :: "string \<Rightarrow> string \<Rightarrow> (string \<times> pyval) list \<Rightarrow> (string \<times> pyval) list" where
  "flatten_items parent_key sep [] = []"
| "flatten_items parent_key sep ((k, VDict d) # rest) =
     dict_of_items (flatten_items (new_key parent_key sep k) sep d)
       @ flatten_items parent_key sep rest"
| "flatten_items parent_key sep ((k, v) # rest) =
     (new_key parent_key sep k, v) # flatten_items parent_key sep rest"

definition flatten_dict :: "pydict \<Rightarrow> string \<Rightarrow> string \<Rightarrow> pydict" where
  "flatten_dict d parent_key sep = dict_of_items (flatten_items parent_key sep d)"

section \<open>run_ffprobe\<close>

definition no_attribute :: "pyval \<Rightarrow> string \<Rightarrow> py_exc" where
  "no_attribute v a =
     OtherException
       ([CHR 0x27] @ type_name v @ [CHR 0x27] @ '' object has no attribute ''
          @ [CHR 0x27] @ a @ [CHR 0x27])"

definition not_iterable :: "pyval \<Rightarrow> py_exc" where
  "not_iterable v =
     OtherException ([CHR 0x27] @ type_name v @ [CHR 0x27] @ '' object is not iterable'')"

text \<open>
  The elements a \<^verbatim>\<open>for\<close> loop draws from a value: the elements of a list, the
  characters of a string, the keys of a dict; anything else raises \<^verbatim>\<open>TypeError\<close>.
\<close>

fun py_iter :: "pyval \<Rightarrow> py_exc + pyval list" where
  "py_iter (VList xs) = Inr xs"
| "py_iter (VStr s) = Inr (map (\<lambda>c. VStr [c]) s)"
| "py_iter (VDict d) = Inr (map (\<lambda>kv. VStr (fst kv)) d)"
| "py_iter v = Inl (not_iterable v)"

text \<open>
  The loop over \<^verbatim>\<open>enumerate(data.get('streams', []))\<close>: \<open>i\<close> is the index of the next
  stream. A stream that is no dict has no \<^verbatim>\<open>get\<close>.
\<close>

fun stream_loop :: "(pyval \<Rightarrow> string) \<Rightarrow> nat \<Rightarrow> pyval list \<Rightarrow> pydict \<Rightarrow> py_exc + pydict" where
  "stream_loop repr i [] metadata = Inr metadata"
| "stream_loop repr i (VDict stream # rest) metadata =
     (let codec_type = (case map_of stream ''codec_type'' of
                          None \<Rightarrow> VStr ''unknown'' | Some c \<Rightarrow> c)
      in stream_loop repr (Suc i) rest
           (dict_update metadata
              (flatten_dict stream
                 (''stream_'' @ str_nat i @ ''_'' @ py_str repr codec_type) ''_'')))"
| "stream_loop repr i (v # rest) metadata = Inl (no_attribute v ''get'')"

text \<open>Lines 112 to 126: the record built from the parsed output of the probe.\<close>

definition probe_report :: "(pyval \<Rightarrow> string) \<Rightarrow> pyval \<Rightarrow> bool \<Rightarrow> py_exc + pydict" where
  "probe_report repr data partial =
     (case data of
        VDict d \<Rightarrow>
          if \<not> truthy (dict_get d ''streams'') then
            Inr [(''is_valid'', VBool False), (''error'', VStr ''no_media_streams'')]
          else
            let metadata =
                  [(''is_valid'', VBool True),
                   (''validation_method'', VStr (if partial then ''partial'' else ''full''))];
                with_format =
                  (case map_of d ''format'' of
                     None \<Rightarrow> Inr metadata
                   | Some (VDict fmt) \<Rightarrow>
                       Inr (dict_set
                              (dict_update metadata (flatten_dict fmt ''format'' ''_''))
                              ''file_size_bytes'' (dict_get fmt ''size''))
                   | Some v \<Rightarrow> Inl (no_attribute v ''items''))
            in (case with_format of
                  Inl e \<Rightarrow> Inl e
                | Inr metadata' \<Rightarrow>
                    (case py_iter (dict_get d ''streams'') of
                       Inl e \<Rightarrow> Inl e
                     | Inr streams \<Rightarrow> stream_loop repr 0 streams metadata'))
      | v \<Rightarrow> Inl (no_attribute v ''get''))"

definition ffprobe_command :: "string list" where
  "ffprobe_command =
     [''ffprobe'', ''-v'', ''quiet'', ''-print_format'', ''json'',
      ''-show_streams'', ''-show_format'', ''-'']"

definition fetch_event :: "string \<Rightarrow> bool \<Rightarrow> event" where
  "fetch_event url partial =
     (if partial then HttpGet url (PROBE_SIZE_MB * 1024 * 1024) 45
      else HttpGet url (DEEP_SCAN_SIZE_MB * 1024 * 1024) 120)"

text \<open>
  The \<^verbatim>\<open>try\<close> block of \<^verbatim>\<open>run_ffprobe\<close>: its result or the exception it raises, and
  the effects it had up to there.
\<close>

definition run_ffprobe_try :: "world \<Rightarrow> string \<Rightarrow> bool \<Rightarrow> (py_exc + pydict) \<times> event list" where
  "run_ffprobe_try session url partial =
     (case (if partial then http_get session url (PROBE_SIZE_MB * 1024 * 1024) 45
            else http_get session url (DEEP_SCAN_SIZE_MB * 1024 * 1024) 120) of
        Inl e \<Rightarrow> (Inl e, [fetch_event url partial])
      | Inr content_to_probe \<Rightarrow>
          if partial \<and> content_to_probe = [] then
            (Inr [(''is_valid'', VBool False), (''error'', VStr ''empty_response_body'')],
             [fetch_event url partial])
          else
            (case subprocess_run session ffprobe_command content_to_probe of
               Inl e \<Rightarrow> Inl e
             | Inr result \<Rightarrow>
                 if returncode result \<noteq> 0 then
                   (case bytes_decode session (stderr result) of
                      Inl e \<Rightarrow> Inl e
                    | Inr text \<Rightarrow>
                        Inr [(''is_valid'', VBool False),
                             (''error'', VStr (''ffprobe_error: '' @ take 200 text))])
                 else
                   (case json_loads session (stdout result) of
                      Inl e \<Rightarrow> Inl e
                    | Inr data \<Rightarrow> probe_report (py_repr session) data partial),
             [fetch_event url partial, Spawn ffprobe_command content_to_probe]))"

text \<open>The two handlers turn every exception of the block into a record.\<close>

definition run_ffprobe :: "world \<Rightarrow> string \<Rightarrow> bool \<Rightarrow> pydict \<times> event list" where
  "run_ffprobe session url partial =
     (case run_ffprobe_try session url partial of
        (Inr metadata, events) \<Rightarrow> (metadata, events)
      | (Inl (RequestException e), events) \<Rightarrow>
          ([(''is_valid'', VBool False), (''error'', VStr (''http_error: '' @ e))], events)
      | (Inl (OtherException e), events) \<Rightarrow>
          ([(''is_valid'', VBool False), (''error'', VStr (''general_error: '' @ e)),
            (''url'', VStr url)], events))"

section \<open>validate_url_entry\<close>

text \<open>
  \<^verbatim>\<open>fast_result.get('error', '')\<close> is always a string here; the text of another value
  has no occurrence to search, and the test would raise.
\<close>

definition error_text :: "pydict \<Rightarrow> string" where
  "error_text r = (case map_of r ''error'' of Some (VStr e) \<Rightarrow> e | _ \<Rightarrow> [])"

definition validate_url_entry :: "string \<Rightarrow> world \<Rightarrow> string \<Rightarrow> pydict \<times> event list" where
  "validate_url_entry url session scan_mode =
     (if str_contains ''no_media_yet'' url \<or> str_contains ''tiny_file'' url then
        ([(''is_valid'', VBool False), (''error'', VStr ''skipped_unsolved_or_tiny'')], [])
      else if scan_mode = ''fast'' then run_ffprobe session url True
      else if scan_mode = ''full'' then run_ffprobe session url False
      else if scan_mode = ''two-pass'' then
        (let (fast_result, fast_events) = run_ffprobe session url True in
         if truthy (dict_get fast_result ''is_valid'') then (fast_result, fast_events)
         else if str_contains ''no_media_streams'' (error_text fast_result) then
           (let (full_result, full_events) = run_ffprobe session url False
            in (full_result, fast_events @ full_events))
         else (fast_result, fast_events))
      else ([(''is_valid'', VBool False), (''error'', VStr ''invalid_scan_mode'')], []))"

section \<open>The output file\<close>

text \<open>
  The \<^verbatim>\<open>csv\<close> module is taken as a faithful transport of a table of text cells: a
  file is its header and its rows. The file system maps a path to the file there.
\<close>

record csv_file =
  fieldnames :: "string list"
  records :: "string list list"

type_synonym files = "string \<rightharpoonup> csv_file"

definition INPUT_CSV :: string where "INPUT_CSV = ''epstein_media_checked_urls.csv''"

definition preferred_order :: "string list" where
  "preferred_order =
     [''original_url'', ''actual_url'', ''media_type'', ''is_valid'', ''validation_method'',
      ''file_size_bytes'', ''error'']"

text \<open>\<^verbatim>\<open>xs.index(x)\<close>, for an \<open>x\<close> that occurs.\<close>

fun list_index :: "'a list \<Rightarrow> 'a \<Rightarrow> nat" where
  "list_index [] x = 0"
| "list_index (y # ys) x = (if x = y then 0 else Suc (list_index ys x))"

definition header_key :: "string \<Rightarrow> nat \<times> string" where
  "header_key h =
     (if h \<in> set preferred_order then list_index preferred_order h else length preferred_order, h)"

text \<open>
  The set \<^verbatim>\<open>all_headers\<close> is listed without duplicates; its order does not matter,
  since the sort key is injective.
\<close>

definition all_headers :: "pydict list \<Rightarrow> string list" where
  "all_headers results = remdups (concat (map (map fst) results))"

definition sorted_headers :: "pydict list \<Rightarrow> string list" where
  "sorted_headers results = sort_key header_key (all_headers results)"

text \<open>
  What \<^verbatim>\<open>DictWriter\<close> writes into a cell: nothing for a missing key or \<^verbatim>\<open>None\<close>,
  a string as it is, \<^verbatim>\<open>str(v)\<close> otherwise.
\<close>

definition csv_cell :: "(pyval \<Rightarrow> string) \<Rightarrow> pyval option \<Rightarrow> string" where
  "csv_cell repr v = (case v of None \<Rightarrow> [] | Some VNone \<Rightarrow> [] | Some x \<Rightarrow> py_str repr x)"

definition save_results_to_csv ::
    "(pyval \<Rightarrow> string) \<Rightarrow> pydict list \<Rightarrow> string \<Rightarrow> files \<Rightarrow> files" where
  "save_results_to_csv repr results file_path fs =
     (if results = [] then fs
      else
        fs(file_path \<mapsto>
           \<lparr>fieldnames = sorted_headers results,
            records =
              map (\<lambda>res. map (\<lambda>h. csv_cell repr (map_of res h)) (sorted_headers results))
                results\<rparr>))"

section \<open>main: resume, queue, harvest\<close>

type_synonym source_row = "(string \<times> string) list"
type_synonym store = "(string \<times> pydict) list"

definition key_error :: "string \<Rightarrow> py_exc" where
  "key_error k = OtherException ([CHR 0x27] @ k @ [CHR 0x27])"




text \<open>Lines 222 to 228: the source rows, without the sentinel media types.\<close>

fun read_source_rows :: "source_row list \<Rightarrow> source_row list \<Rightarrow> py_exc + source_row list" where
  "read_source_rows [] source_rows = Inr source_rows"
| "read_source_rows (row # rest) source_rows =
     (case map_of row ''media_type'' of
        None \<Rightarrow> Inl (key_error ''media_type'')
      | Some t \<Rightarrow>
          if t \<in> set [''no_media_yet'', ''pdf_or_not_found'', ''tiny_file'']
          then read_source_rows rest source_rows
          else read_source_rows rest (source_rows @ [row]))"

text \<open>Lines 238 to 242: the queue of one iteration.\<close>

fun rows_to_validate ::
    "source_row list \<Rightarrow> store \<Rightarrow> source_row list \<Rightarrow> py_exc + source_row list" where
  "rows_to_validate [] processed_urls queue = Inr queue"
| "rows_to_validate (row # rest) processed_urls queue =
     (case map_of row ''actual_url'' of
        None \<Rightarrow> Inl (key_error ''actual_url'')
      | Some url \<Rightarrow>
          if map_of processed_urls url = None
          then rows_to_validate rest processed_urls (queue @ [row])
          else rows_to_validate rest processed_urls queue)"

text \<open>
  The pending set in the words of the design: the source entries whose
  \<^verbatim>\<open>actual_url\<close> is absent from the result store.
\<close>

definition absent_from_store :: "store \<Rightarrow> source_row \<Rightarrow> bool" where
  "absent_from_store processed_urls row =
     (case map_of row ''actual_url'' of
        None \<Rightarrow> False
      | Some url \<Rightarrow> url \<notin> fst ` set processed_urls)"

definition pending_set :: "source_row list \<Rightarrow> store \<Rightarrow> source_row list" where
  "pending_set source_rows processed_urls =
     filter (absent_from_store processed_urls) source_rows"

text \<open>
  The state the harvesting loop changes: the result store, the files, and a log of
  the calls of \<^verbatim>\<open>save_results_to_csv\<close>, each with the results it was given.
\<close>

record run_state =
  processed_urls :: store
  disk :: files
  save_calls :: "pydict list list"




section \<open>What a probe saw\<close>



section \<open>Example worlds\<close>

text \<open>
  A world that answers every request with \<open>reply\<close>, ends every process with the
  return code \<open>rc\<close> and empty output, and parses every output to \<open>data\<close>.
\<close>

definition const_world :: "(py_exc + string) \<Rightarrow> int \<Rightarrow> pyval \<Rightarrow> world" where
  "const_world reply rc data =
     \<lparr>http_get = (\<lambda>url last_byte timeout. reply),
      subprocess_run = (\<lambda>command input. Inr \<lparr>returncode = rc, stdout = [], stderr = []\<rparr>),
      bytes_decode = Inr,
      json_loads = (\<lambda>out. Inr data),
      py_repr = (\<lambda>v. [])\<rparr>"


section \<open>Leaves of a probe document\<close>


text \<open>
  What a member contributes to the front of the flat keys below it: its key, followed by
  \<open>sep\<close> when its value is an object. Two members of one object clash when they have
  the same key, or when the \<open>key @ sep\<close> of one that is an object begins what the
  other contributes. An object is unambiguous when no two of its members clash, and
  the same holds of every object nested in it.
\<close>

definition stem :: "string \<Rightarrow> string \<times> pyval \<Rightarrow> string" where
  "stem sep m = (if is_dict (snd m) then fst m @ sep else fst m)"

definition key_clash :: "string \<Rightarrow> string \<times> pyval \<Rightarrow> string \<times> pyval \<Rightarrow> bool" where
  "key_clash sep m1 m2 =
     (fst m1 = fst m2
      \<or> (is_dict (snd m1) \<and> prefix (fst m1 @ sep) (stem sep m2))
      \<or> (is_dict (snd m2) \<and> prefix (fst m2 @ sep) (stem sep m1)))"

fun unambiguous :: "string \<Rightarrow> (string \<times> pyval) list \<Rightarrow> bool" where
  "unambiguous sep [] = True"
| "unambiguous sep ((k, VDict d) # rest) =
     (unambiguous sep d \<and> list_all (\<lambda>m. \<not> key_clash sep (k, VDict d) m) rest
      \<and> unambiguous sep rest)"
| "unambiguous sep ((k, v) # rest) =
     (list_all (\<lambda>m. \<not> key_clash sep (k, v) m) rest \<and> unambiguous sep rest)"
section \<open>Dictionaries: lookups and keys\<close>



lemma distinct_dict_set: "distinct (map fst d) \<Longrightarrow> distinct (map fst (dict_set d k v))"
  by (simp add: dict_set_def distinct_update)

lemma dict_update_Cons:
  "dict_update d (kv # other) = dict_update (dict_set d (fst kv) (snd kv)) other"
  by (simp add: dict_update_def)



lemma distinct_dict_update:
  "distinct (map fst d) \<Longrightarrow> distinct (map fst (dict_update d other))"
proof (induction other arbitrary: d)
  case Nil
  then show ?case by (simp add: dict_update_def)
next
  case (Cons kv other)
  then show ?case
    unfolding dict_update_Cons by (simp add: distinct_dict_set)
qed



section \<open>Keys of a flattened dictionary\<close>



section \<open>Persistence of an empty store\<close>

text \<open>
  C10: called with an empty list of results, \<^verbatim>\<open>save_results_to_csv\<close> returns at once:
  no file is written, so the files, the output file among them, are as they were.
\<close>

theorem save_results_empty_writes_nothing:
  "save_results_to_csv repr [] file_path fs = fs"
  by (simp add: save_results_to_csv_def)

section \<open>Sentinel URLs\<close>

text \<open>
  C7: a URL that contains \<^verbatim>\<open>no_media_yet\<close> or \<^verbatim>\<open>tiny_file\<close> is answered with the
  fixed error \<^verbatim>\<open>skipped_unsolved_or_tiny\<close> in every scan mode, a recognised one or not,
  and the task has no effect: no request is sent and no process is spawned.
\<close>

theorem sentinel_url_skipped:
  "str_contains ''no_media_yet'' url \<or> str_contains ''tiny_file'' url \<Longrightarrow>
   validate_url_entry url session scan_mode =
     ([(''is_valid'', VBool False), (''error'', VStr ''skipped_unsolved_or_tiny'')], [])"
  by (simp add: validate_url_entry_def)

theorem sentinel_url_skipped_witness:
  "(str_contains ''no_media_yet'' ''https://host/no_media_yet/a.mp4''
      \<or> str_contains ''tiny_file'' ''https://host/no_media_yet/a.mp4'')
   \<and> validate_url_entry ''https://host/no_media_yet/a.mp4''
         (const_world (Inr ''abc'') 0 VNone) ''turbo'' =
       ([(''is_valid'', VBool False), (''error'', VStr ''skipped_unsolved_or_tiny'')], [])"
proof -
  have h: "str_contains ''no_media_yet'' ''https://host/no_media_yet/a.mp4''
      \<or> str_contains ''tiny_file'' ''https://host/no_media_yet/a.mp4''"
    by simp
  show ?thesis
    using h sentinel_url_skipped [OF h, of "const_world (Inr ''abc'') 0 VNone" "''turbo''"]
    by blast
qed

section \<open>Empty response bodies\<close>




section \<open>Escalation under two-pass\<close>

text \<open>
  C2: the deep fetch is meant for a fast pass that found no media streams. The test
  at line 150 searches the error text for \<^verbatim>\<open>no_media_streams\<close>, and the text of an
  HTTP error quotes the URL: for a URL that holds these words, a 404 of the fast pass
  is followed by a deep fetch, here the second request of the task.
\<close>

theorem two_pass_escalates_on_http_error:
  "validate_url_entry ''https://host/no_media_streams.mp4''
     (const_world
        (Inl (RequestException
          ''404 Client Error: Not Found for url: https://host/no_media_streams.mp4''))
        0 VNone)
     ''two-pass'' =
   ([(''is_valid'', VBool False),
     (''error'', VStr
        ''http_error: 404 Client Error: Not Found for url: https://host/no_media_streams.mp4'')],
    [HttpGet ''https://host/no_media_streams.mp4'' (5 * 1024 * 1024) 45,
     HttpGet ''https://host/no_media_streams.mp4'' (100 * 1024 * 1024) 120])"
  by (simp add: validate_url_entry_def run_ffprobe_def run_ffprobe_try_def const_world_def
      fetch_event_def DEEP_SCAN_SIZE_MB_def PROBE_SIZE_MB_def dict_get_def error_text_def)

section \<open>Records built from a probe report\<close>










section \<open>Outcomes of a validation task\<close>






section \<open>No failure of a URL leaves its task\<close>



section \<open>Valid and invalid records\<close>





section \<open>Resume: the queue of an iteration\<close>

lemma rows_to_validate_filter:
  "\<forall>row\<in>set source_rows. map_of row ''actual_url'' \<noteq> None \<Longrightarrow>
   rows_to_validate source_rows result_store queue =
     Inr (queue @ pending_set source_rows result_store)"
proof (induction source_rows arbitrary: queue)
  case Nil
  then show ?case by (simp add: pending_set_def)
next
  case (Cons row rest)
  then obtain url where u: "map_of row ''actual_url'' = Some url" by auto
  have ih: "rows_to_validate rest result_store q = Inr (q @ pending_set rest result_store)" for q
    using Cons by simp
  show ?case
    by (simp add: u ih pending_set_def absent_from_store_def map_of_eq_None_iff)
qed

text \<open>
  C3: the queue built at the start of an iteration is the list of the source rows
  whose \<^verbatim>\<open>actual_url\<close> is absent from the result store. When the URLs of the
  source rows are distinct and the store holds exactly the URLs of the first \<open>N\<close>
  of the \<open>M\<close> rows, the queue is the remaining rows, \<open>M - N\<close> of them.
\<close>

theorem pending_set_resume:
  assumes "\<forall>row\<in>set source_rows. map_of row ''actual_url'' \<noteq> None"
  shows "rows_to_validate source_rows result_store [] =
           Inr (pending_set source_rows result_store)
         \<and> (distinct (map (\<lambda>row. map_of row ''actual_url'') source_rows)
              \<and> N \<le> length source_rows
              \<and> Some ` fst ` set result_store =
                  (\<lambda>row. map_of row ''actual_url'') ` set (take N source_rows)
            \<longrightarrow> pending_set source_rows result_store = drop N source_rows
                \<and> length (pending_set source_rows result_store) = length source_rows - N)"
proof (intro conjI impI)
  show "rows_to_validate source_rows result_store [] =
           Inr (pending_set source_rows result_store)"
    using rows_to_validate_filter [OF assms, of result_store "[]"] by simp
next
  assume h: "distinct (map (\<lambda>row. map_of row ''actual_url'') source_rows)
              \<and> N \<le> length source_rows
              \<and> Some ` fst ` set result_store =
                  (\<lambda>row. map_of row ''actual_url'') ` set (take N source_rows)"
  let ?u = "\<lambda>row. map_of row ''actual_url''"
  have absent_iff: "absent_from_store result_store row \<longleftrightarrow> ?u row \<notin> ?u ` set (take N source_rows)"
    if mem: "row \<in> set source_rows" for row
  proof -
    obtain url where u: "?u row = Some url" using assms mem by auto
    have "url \<in> fst ` set result_store \<longleftrightarrow> Some url \<in> Some ` fst ` set result_store"
      by auto
    then show ?thesis using h u by (simp add: absent_from_store_def)
  qed
  have split: "source_rows = take N source_rows @ drop N source_rows" by simp
  have d: "distinct (map ?u (take N source_rows) @ map ?u (drop N source_rows))"
    using h by (metis append_take_drop_id map_append)
  have disj: "?u ` set (take N source_rows) \<inter> ?u ` set (drop N source_rows) = {}"
    using d by (simp only: distinct_append set_map)
  have "filter (absent_from_store result_store) (take N source_rows) = []"
    using absent_iff by (auto simp: filter_empty_conv dest: in_set_takeD)
  moreover have "filter (absent_from_store result_store) (drop N source_rows) = drop N source_rows"
    using absent_iff disj by (auto simp: filter_id_conv dest: in_set_dropD)
  ultimately have "pending_set source_rows result_store = drop N source_rows"
    unfolding pending_set_def by (subst split) (simp only: filter_append append_Nil)
  then show "pending_set source_rows result_store = drop N source_rows"
    and "length (pending_set source_rows result_store) = length source_rows - N"
    by simp_all
qed

theorem pending_set_resume_witness:
  "rows_to_validate
        [[(''actual_url'', ''a'')], [(''actual_url'', ''b'')], [(''actual_url'', ''c'')]]
        [(''a'', [(''actual_url'', VStr ''a''), (''is_valid'', VBool True)])] [] =
      Inr [[(''actual_url'', ''b'')], [(''actual_url'', ''c'')]]
   \<and> length (pending_set
        [[(''actual_url'', ''a'')], [(''actual_url'', ''b'')], [(''actual_url'', ''c'')]]
        [(''a'', [(''actual_url'', VStr ''a''), (''is_valid'', VBool True)])]) = 3 - 1"
proof -
  let ?rows = "[[(''actual_url'', ''a'')], [(''actual_url'', ''b'')], [(''actual_url'', ''c'')]]"
  let ?store = "[(''a'', [(''actual_url'', VStr ''a''), (''is_valid'', VBool True)])]"
  have h: "\<forall>row\<in>set ?rows. map_of row ''actual_url'' \<noteq> None" by simp
  have g: "distinct (map (\<lambda>row. map_of row ''actual_url'') ?rows)
              \<and> (1::nat) \<le> length ?rows
              \<and> Some ` fst ` set ?store =
                  (\<lambda>row. map_of row ''actual_url'') ` set (take 1 ?rows)"
    by simp
  from pending_set_resume [OF h, of ?store 1] g
  have "rows_to_validate ?rows ?store [] = Inr (pending_set ?rows ?store)"
    and "pending_set ?rows ?store = drop 1 ?rows"
    and "length (pending_set ?rows ?store) = length ?rows - 1"
    by blast+
  then show ?thesis by simp
qed



subsection \<open>The harvest loop and the persistence cadence\<close>

















subsection \<open>Writing the store and reading it back\<close>
















section \<open>Flattening\<close>


lemma flatten_items_leaf_step:
  "\<not> is_dict v \<Longrightarrow>
   flatten_items parent_key sep ((k, v) # rest) =
     (new_key parent_key sep k, v) # flatten_items parent_key sep rest"
  by (cases v) simp_all

lemma unambiguous_leaf:
  "\<not> is_dict v \<Longrightarrow>
   unambiguous sep ((k, v) # rest) =
     (list_all (\<lambda>m. \<not> key_clash sep (k, v) m) rest \<and> unambiguous sep rest)"
  by (cases v) simp_all
















end
